theory Spec2Isabelle
  imports Main
begin

section \<open>Python values\<close>

text \<open>
  The values that travel through \<^verbatim>\<open>push_notifications/apns.py\<close> and
  \<^verbatim>\<open>push_notifications/admin.py\<close>: \<^verbatim>\<open>None\<close>, booleans, integers, strings, lists
  and dictionaries (a dictionary is an association list of its items).
\<close>

datatype pyval =
    PNone
  | PBool bool
  | PInt int
  | PStr string
  | PList "pyval list"
  | PDict "(string \<times> pyval) list"

text \<open>Python truth value testing, as used by \<^verbatim>\<open>if x\<close>, \<^verbatim>\<open>not x\<close> and \<^verbatim>\<open>x or y\<close>.\<close>

fun truthy :: "pyval \<Rightarrow> bool" where
  "truthy PNone = False"
| "truthy (PBool b) = b"
| "truthy (PInt i) = (i \<noteq> 0)"
| "truthy (PStr s) = (s \<noteq> [])"
| "truthy (PList xs) = (xs \<noteq> [])"
| "truthy (PDict kvs) = (kvs \<noteq> [])"

text \<open>\<^verbatim>\<open>a or b\<close>\<close>

definition py_or :: "pyval \<Rightarrow> pyval \<Rightarrow> pyval" where
  "py_or a b = (if truthy a then a else b)"

text \<open>
  \<^verbatim>\<open>ret == True\<close>: Python's \<^verbatim>\<open>bool\<close> is a subclass of \<^verbatim>\<open>int\<close>, so the comparison
  holds for \<^verbatim>\<open>True\<close> and for the integer \<^verbatim>\<open>1\<close>, and for no string, list, dictionary
  or \<^verbatim>\<open>None\<close>.
\<close>

fun py_eq_True :: "pyval \<Rightarrow> bool" where
  "py_eq_True (PBool b) = b"
| "py_eq_True (PInt i) = (i = 1)"
| "py_eq_True _ = False"

text \<open>Decimal rendering of an integer, as \<^verbatim>\<open>str(i)\<close> and \<^verbatim>\<open>"%d" % i\<close> produce it.\<close>

definition digit_char :: "nat \<Rightarrow> char" where
  "digit_char d = ''0123456789'' ! d"

function str_nat :: "nat \<Rightarrow> string" where
  "str_nat n = (if n < 10 then [digit_char n] else str_nat (n div 10) @ [digit_char (n mod 10)])"
  by pat_completeness auto
termination
  by (relation "measure id") auto

declare str_nat.simps [simp del]

definition str_int :: "int \<Rightarrow> string" where
  "str_int i = (if i < 0 then CHR ''-'' # str_nat (nat (- i)) else str_nat (nat i))"

text \<open>\<^verbatim>\<open>sep.join(xs)\<close> on a list of strings.\<close>

fun join :: "string \<Rightarrow> string list \<Rightarrow> string" where
  "join sep [] = []"
| "join sep [x] = x"
| "join sep (x # y # ys) = x @ sep @ join sep (y # ys)"


section \<open>Payload builder: \<^verbatim>\<open>_apns_prepare\<close>\<close>

text \<open>
  The \<^verbatim>\<open>badge\<close> argument is either a plain value or a callable that is given the
  recipient's token.
\<close>

datatype badge_arg =
    Badge pyval
  | BadgeCallable "string \<Rightarrow> pyval"

text \<open>
  \<^verbatim>\<open>apns2.payload.PayloadAlert\<close> and \<^verbatim>\<open>apns2.payload.Payload\<close> are containers of the
  arguments they are constructed from; the records keep the arguments the source passes,
  under the library's parameter names.
\<close>

record PayloadAlert =
  body :: pyval
  body_localized_key :: pyval
  body_localized_args :: pyval
  action_localized_key :: pyval

datatype alert_field =
    PlainAlert pyval
  | LocalizedAlert PayloadAlert

record Payload =
  p_alert :: alert_field
  p_badge :: badge_arg
  p_sound :: pyval
  p_content_available :: pyval
  p_mutable_content :: pyval
  p_category :: pyval
  p_url_args :: pyval
  p_custom :: pyval
  p_thread_id :: pyval

text \<open>
  \<^verbatim>\<open>_apns_prepare(token, alert, badge, sound, category, content_available,
  action_loc_key, loc_key, loc_args, extra, mutable_content, thread_id, url_args)\<close>,
  lines 48 to 64. The test \<^verbatim>\<open>if callable(badge)\<close> is indented under the \<^verbatim>\<open>else\<close>
  of the localization test, and the model follows the indentation: the callable is
  evaluated (\<^verbatim>\<open>badge = badge(token)\<close>) only on the branch that keeps the alert as
  given.
\<close>

definition apns_prepare ::
  "string \<Rightarrow> pyval \<Rightarrow> badge_arg \<Rightarrow> pyval \<Rightarrow> pyval \<Rightarrow> pyval \<Rightarrow> pyval \<Rightarrow> pyval \<Rightarrow> pyval \<Rightarrow>
   pyval \<Rightarrow> pyval \<Rightarrow> pyval \<Rightarrow> pyval \<Rightarrow> Payload" where
  "apns_prepare token alert badge sound category content_available
       action_loc_key loc_key loc_args extra mutable_content thread_id url_args =
     (let (apns2_alert, badge') =
        (if truthy action_loc_key \<or> truthy loc_key \<or> truthy loc_args then
           (LocalizedAlert
              \<lparr>body = (if truthy alert then alert else PDict []),
               body_localized_key = loc_key,
               body_localized_args = loc_args,
               action_localized_key = action_loc_key\<rparr>,
            badge)
         else
           (PlainAlert alert,
            (case badge of BadgeCallable f \<Rightarrow> Badge (f token) | Badge v \<Rightarrow> Badge v)))
      in \<lparr>p_alert = apns2_alert, p_badge = badge', p_sound = sound,
          p_content_available = content_available, p_mutable_content = mutable_content,
          p_category = category, p_url_args = url_args, p_custom = extra,
          p_thread_id = thread_id\<rparr>)"


section \<open>Errors, devices, clients and the environment\<close>

text \<open>
  The classes of \<^verbatim>\<open>apns2.errors\<close> that the certificate path distinguishes:
  \<^verbatim>\<open>Unregistered\<close>, tested by \<^verbatim>\<open>isinstance\<close>, and every other subclass of
  \<^verbatim>\<open>APNsException\<close>, kept by its class name.
\<close>

datatype apns2_error =
    Unregistered
  | OtherAPNsError string

text \<open>Every exception the two modules raise, catch or let through.\<close>

datatype exn =
    ImproperlyConfigured string
  | APNSUnsupportedPriority string
  | APNSServerError string
  | APNsException apns2_error
  | GobikoAPNsException string
  | GCMError string
  | TypeError
  | AttributeError
  | DoesNotExist
  | MultipleObjectsReturned
  | OtherException string

text \<open>
  \<^verbatim>\<open>APNSServerError\<close> carries its \<^verbatim>\<open>status\<close>; \<^verbatim>\<open>APNsException\<close> is an exception of
  \<^verbatim>\<open>apns2.errors\<close> with its class; \<^verbatim>\<open>GobikoAPNsException\<close> is the exception of
  \<^verbatim>\<open>gobiko.apns.exceptions\<close> that \<^verbatim>\<open>admin.py\<close> catches, with \<^verbatim>\<open>type(e).__name__\<close>;
  \<^verbatim>\<open>GCMError\<close> carries \<^verbatim>\<open>str(e)\<close>; \<^verbatim>\<open>OtherException\<close> is any exception none of the
  handlers names (a failed connection, say).
\<close>

text \<open>A row of \<^verbatim>\<open>models.APNSDevice\<close>: the two fields \<^verbatim>\<open>apns.py\<close> reads and writes.\<close>

record APNSDevice =
  registration_id :: string
  active :: bool

text \<open>The certificate client \<^verbatim>\<open>apns2_client.APNsClient(certfile, use_sandbox, use_alternative_port)\<close>.\<close>

record apns2_client =
  c_certfile :: pyval
  c_use_sandbox :: pyval
  c_use_alternative_port :: pyval

text \<open>The token client \<^verbatim>\<open>gobiko.apns.APNsClient(team_id, bundle_id, ...)\<close>.\<close>

record authkey_client =
  k_team_id :: pyval
  k_bundle_id :: pyval
  k_auth_key_id :: pyval
  k_auth_key_filepath :: pyval
  k_use_sandbox :: pyval
  k_force_proto :: string

text \<open>
  The \<^verbatim>\<open>priority\<close> keyword as a caller supplies it: absent or \<^verbatim>\<open>None\<close>, an integer,
  or a string.
\<close>

datatype priority_arg =
    PriorityNone
  | PriorityInt int
  | PriorityStr string

fun truthy_priority :: "priority_arg \<Rightarrow> bool" where
  "truthy_priority PriorityNone = False"
| "truthy_priority (PriorityInt i) = (i \<noteq> 0)"
| "truthy_priority (PriorityStr s) = (s \<noteq> [])"

text \<open>\<^verbatim>\<open>str(priority)\<close>\<close>

fun str_priority :: "priority_arg \<Rightarrow> string" where
  "str_priority PriorityNone = ''None''"
| "str_priority (PriorityInt i) = str_int i"
| "str_priority (PriorityStr s) = s"

text \<open>
  \<^verbatim>\<open>"Unsupported priority %d" % (priority)\<close>: the \<^verbatim>\<open>%d\<close> conversion accepts a number and
  raises \<^verbatim>\<open>TypeError\<close> for a string or \<^verbatim>\<open>None\<close>.
\<close>

fun unsupported_priority_message :: "priority_arg \<Rightarrow> exn + string" where
  "unsupported_priority_message (PriorityInt i) = Inr (''Unsupported priority '' @ str_int i)"
| "unsupported_priority_message _ = Inl TypeError"

text \<open>
  The keyword arguments of a send, restricted to the keywords the functions of
  \<^verbatim>\<open>apns.py\<close> name: \<^verbatim>\<open>certfile\<close>, \<^verbatim>\<open>expiration\<close> and \<^verbatim>\<open>priority\<close>, which
  \<^verbatim>\<open>_apns_send\<close> pops, and the optional parameters of \<^verbatim>\<open>_apns_prepare\<close>. A keyword left
  out has the default the source gives it (\<open>default_kwargs\<close>).
\<close>

record kwargs =
  kw_certfile :: pyval
  kw_expiration :: pyval
  kw_priority :: priority_arg
  kw_badge :: badge_arg
  kw_sound :: pyval
  kw_category :: pyval
  kw_content_available :: pyval
  kw_action_loc_key :: pyval
  kw_loc_key :: pyval
  kw_loc_args :: pyval
  kw_extra :: pyval
  kw_mutable_content :: pyval
  kw_thread_id :: pyval
  kw_url_args :: pyval

definition default_kwargs :: kwargs where
  "default_kwargs =
     \<lparr>kw_certfile = PNone, kw_expiration = PNone, kw_priority = PriorityNone,
      kw_badge = Badge PNone, kw_sound = PNone, kw_category = PNone,
      kw_content_available = PBool False, kw_action_loc_key = PNone, kw_loc_key = PNone,
      kw_loc_args = PList [], kw_extra = PDict [], kw_mutable_content = PBool False,
      kw_thread_id = PNone, kw_url_args = PNone\<rparr>"

text \<open>
  \<^verbatim>\<open>notification_kwargs\<close> of \<^verbatim>\<open>_apns_send\<close>: \<^verbatim>\<open>expiration\<close> is always set,
  \<^verbatim>\<open>priority\<close> only when one was supplied. A member of the enum
  \<^verbatim>\<open>apns2_client.NotificationPriority\<close> is identified by its value.
\<close>

record notification_kwargs =
  nk_expiration :: pyval
  nk_priority :: "string option"

text \<open>
  What the two clients are asked to do, in order. Constructing a client and every call
  on it are recorded, so that a theorem can say that none happened.
\<close>

datatype event =
    APNsClient_new apns2_client
  | APNsClient_connect apns2_client
  | APNsClient_send_notification apns2_client string Payload pyval notification_kwargs
  | APNsClient_send_notification_batch apns2_client "(string \<times> Payload) list" pyval
      notification_kwargs
  | AuthKeyClient_new authkey_client
  | AuthKeyClient_send_message authkey_client string pyval kwargs
  | AuthKeyClient_send_bulk_message authkey_client "string list" pyval kwargs

text \<open>The events that reach the network: everything but the two constructors.\<close>

fun network_call :: "event \<Rightarrow> bool" where
  "network_call (APNsClient_new c) = False"
| "network_call (AuthKeyClient_new c) = False"
| "network_call _ = True"

text \<open>The events that hand a notification to the gateway.\<close>

fun send_call :: "event \<Rightarrow> bool" where
  "send_call (APNsClient_new c) = False"
| "send_call (APNsClient_connect c) = False"
| "send_call (AuthKeyClient_new c) = False"
| "send_call _ = True"

text \<open>The expiration a send event hands to the gateway with the notification.\<close>

fun sent_expiration :: "event \<Rightarrow> pyval option" where
  "sent_expiration (APNsClient_send_notification c rid p topic nk) = Some (nk_expiration nk)"
| "sent_expiration (APNsClient_send_notification_batch c data topic nk) =
     Some (nk_expiration nk)"
| "sent_expiration _ = None"

text \<open>
  Everything the module reads from outside itself, as parameters: the settings
  dictionary, the clock (\<^verbatim>\<open>int(time.time())\<close>), the values of the members of
  \<^verbatim>\<open>NotificationPriority\<close>, \<^verbatim>\<open>reason_for_exception_class\<close> of \<^verbatim>\<open>apns_errors\<close>, and
  what each call on a client does: \<open>None\<close> or \<open>Inr\<close> when it returns, the exception
  when it raises.
\<close>

record env =
  SETTINGS :: "string \<rightharpoonup> pyval"
  time_now :: int
  priority_values :: "string list"
  reason_for_exception_class :: "apns2_error \<Rightarrow> string"
  connect :: "apns2_client \<Rightarrow> exn option"
  send_notification ::
    "apns2_client \<Rightarrow> string \<Rightarrow> Payload \<Rightarrow> pyval \<Rightarrow> notification_kwargs \<Rightarrow> exn option"
  send_notification_batch ::
    "apns2_client \<Rightarrow> (string \<times> Payload) list \<Rightarrow> pyval \<Rightarrow> notification_kwargs \<Rightarrow> exn + pyval"
  send_message :: "authkey_client \<Rightarrow> string \<Rightarrow> pyval \<Rightarrow> kwargs \<Rightarrow> exn + pyval"
  send_bulk_message :: "authkey_client \<Rightarrow> string list \<Rightarrow> pyval \<Rightarrow> kwargs \<Rightarrow> exn + pyval"

text \<open>\<^verbatim>\<open>SETTINGS.get(key, default)\<close>; \<^verbatim>\<open>SETTINGS.get(key)\<close> is the call with \<^verbatim>\<open>None\<close>.\<close>

definition SETTINGS_get :: "env \<Rightarrow> string \<Rightarrow> pyval \<Rightarrow> pyval" where
  "SETTINGS_get e key dflt = (case SETTINGS e key of None \<Rightarrow> dflt | Some v \<Rightarrow> v)"

text \<open>
  The state a send changes: the rows of the Device Registry and the record of the
  calls made on the clients.
\<close>

record world =
  devices :: "APNSDevice list"
  calls :: "event list"


section \<open>The functions of \<^verbatim>\<open>apns.py\<close>\<close>

text \<open>
  \<^verbatim>\<open>_apns_create_socket(certfile)\<close>, lines 38 to 45: the client is constructed, then
  connected; a failed connection raises.
\<close>

definition apns_create_socket :: "env \<Rightarrow> pyval \<Rightarrow> world \<Rightarrow> (exn + apns2_client) \<times> world" where
  "apns_create_socket e certfile w =
     (let certfile' = py_or certfile (SETTINGS_get e ''APNS_CERTIFICATE'' PNone);
          client = \<lparr>c_certfile = certfile',
                    c_use_sandbox = SETTINGS_get e ''APNS_USE_SANDBOX'' PNone,
                    c_use_alternative_port = SETTINGS_get e ''APNS_USE_ALTERNATIVE_PORT'' PNone\<rparr>;
          w1 = w\<lparr>calls := calls w @ [APNsClient_new client, APNsClient_connect client]\<rparr>
      in case connect e client of
           Some x \<Rightarrow> (Inl x, w1)
         | None \<Rightarrow> (Inr client, w1))"

text \<open>\<^verbatim>\<open>_check_auth_key_settings()\<close>, lines 67 to 87; it reads the settings and nothing else.\<close>

definition check_auth_key_settings :: "env \<Rightarrow> exn + unit" where
  \<open>check_auth_key_settings e =
     (if \<not> truthy (SETTINGS_get e ''TEAM_ID'' PNone) then
        Inl (ImproperlyConfigured ''You need to set PUSH_NOTIFICATION_SETTINGS["TEAM_ID"]'')
      else if \<not> truthy (SETTINGS_get e ''BUNDLE_ID'' PNone) then
        Inl (ImproperlyConfigured ''You need to set PUSH_NOTIFICATION_SETTINGS["BUNDLE_ID"]'')
      else if \<not> truthy (SETTINGS_get e ''APNS_KEY_ID'' PNone) then
        Inl (ImproperlyConfigured ''You need to set PUSH_NOTIFICATION_SETTINGS["APNS_KEY_ID"]'')
      else if \<not> truthy (SETTINGS_get e ''APNS_KEY_FILEPATH'' PNone) then
        Inl (ImproperlyConfigured
               ''You need to set PUSH_NOTIFICATION_SETTINGS["APNS_KEY_FILEPATH"]'')
      else Inr ())\<close>

text \<open>The client both token-path functions construct, lines 96 to 103 and 120 to 127.\<close>

definition auth_key_client :: "env \<Rightarrow> authkey_client" where
  "auth_key_client e =
     \<lparr>k_team_id = SETTINGS_get e ''TEAM_ID'' PNone,
      k_bundle_id = SETTINGS_get e ''BUNDLE_ID'' PNone,
      k_auth_key_id = SETTINGS_get e ''APNS_KEY_ID'' PNone,
      k_auth_key_filepath = SETTINGS_get e ''APNS_KEY_FILEPATH'' PNone,
      k_use_sandbox = SETTINGS_get e ''APNS_USE_SANDBOX'' (PBool True),
      k_force_proto = ''h2''\<rparr>"

text \<open>
  \<^verbatim>\<open>_auth_key_apns_send(registration_id, alert, **kwargs)\<close>, lines 90 to 110. The alert
  joins the keywords handed to the client, so the event keeps both.
\<close>

definition auth_key_apns_send ::
  "env \<Rightarrow> string \<Rightarrow> pyval \<Rightarrow> kwargs \<Rightarrow> world \<Rightarrow> (exn + pyval) \<times> world" where
  "auth_key_apns_send e reg_id alert kw w =
     (let client = auth_key_client e;
          w1 = w\<lparr>calls := calls w @
                 [AuthKeyClient_new client, AuthKeyClient_send_message client reg_id alert kw]\<rparr>
      in case send_message e client reg_id alert kw of
           Inl x \<Rightarrow> (Inl x, w1)
         | Inr ret \<Rightarrow> (if py_eq_True ret then (Inr (PStr ''True''), w1) else (Inr ret, w1)))"

text \<open>\<^verbatim>\<open>_auth_key_apns_bulk_send(registration_ids, alert, **kwargs)\<close>, lines 113 to 130.\<close>

definition auth_key_apns_bulk_send ::
  "env \<Rightarrow> string list \<Rightarrow> pyval \<Rightarrow> kwargs \<Rightarrow> world \<Rightarrow> (exn + pyval) \<times> world" where
  "auth_key_apns_bulk_send e reg_ids alert kw w =
     (let client = auth_key_client e;
          w1 = w\<lparr>calls := calls w @
                 [AuthKeyClient_new client,
                  AuthKeyClient_send_bulk_message client reg_ids alert kw]\<rparr>
      in (send_bulk_message e client reg_ids alert kw, w1))"

text \<open>
  Lines 143 to 148 of \<^verbatim>\<open>_apns_send\<close>: a supplied priority is looked up in the enum by
  \<^verbatim>\<open>str(priority)\<close>; the lookup's \<^verbatim>\<open>ValueError\<close> is answered by raising
  \<^verbatim>\<open>APNSUnsupportedPriority\<close> with a message formatted by \<^verbatim>\<open>%d\<close>, and the formatting
  itself raises when the priority is not a number.
\<close>

definition notification_priority :: "env \<Rightarrow> priority_arg \<Rightarrow> exn + string option" where
  "notification_priority e priority =
     (if truthy_priority priority then
        (if str_priority priority \<in> set (priority_values e) then
           Inr (Some (str_priority priority))
         else
           (case unsupported_priority_message priority of
              Inl x \<Rightarrow> Inl x
            | Inr msg \<Rightarrow> Inl (APNSUnsupportedPriority msg)))
      else Inr None)"

text \<open>
  The first argument of \<^verbatim>\<open>_apns_send\<close> with its \<^verbatim>\<open>batch\<close> flag: the two callers pass
  a single identifier with \<^verbatim>\<open>batch\<close> left \<^verbatim>\<open>False\<close>, or a list with \<^verbatim>\<open>batch=True\<close>.
\<close>

datatype recipients =
    Rid string
  | Rids "string list"

text \<open>The call \<^verbatim>\<open>_apns_prepare(rid, alert, **kwargs)\<close> on what is left of the keywords.\<close>

definition apns_prepare_kwargs :: "string \<Rightarrow> pyval \<Rightarrow> kwargs \<Rightarrow> Payload" where
  "apns_prepare_kwargs token alert kw =
     apns_prepare token alert (kw_badge kw) (kw_sound kw) (kw_category kw)
       (kw_content_available kw) (kw_action_loc_key kw) (kw_loc_key kw) (kw_loc_args kw)
       (kw_extra kw) (kw_mutable_content kw) (kw_thread_id kw) (kw_url_args kw)"

text \<open>
  \<^verbatim>\<open>_apns_send(registration_id, alert, batch, **kwargs)\<close>, lines 133 to 158. The socket
  is created first; the single send returns \<^verbatim>\<open>None\<close>, the batch send returns what the
  client returns.
\<close>

definition apns_send ::
  "env \<Rightarrow> recipients \<Rightarrow> pyval \<Rightarrow> kwargs \<Rightarrow> world \<Rightarrow> (exn + pyval) \<times> world" where
  "apns_send e rcpts alert kw w =
     (case apns_create_socket e (kw_certfile kw) w of
        (Inl x, w1) \<Rightarrow> (Inl x, w1)
      | (Inr client, w1) \<Rightarrow>
          (let expiration =
                 (if \<not> truthy (kw_expiration kw) then PInt (time_now e + 2592000)
                  else kw_expiration kw)
           in case notification_priority e (kw_priority kw) of
                Inl x \<Rightarrow> (Inl x, w1)
              | Inr priority \<Rightarrow>
                  (let nk = \<lparr>nk_expiration = expiration, nk_priority = priority\<rparr>;
                       topic = SETTINGS_get e ''APNS_TOPIC'' PNone
                   in case rcpts of
                        Rids reg_ids \<Rightarrow>
                          (let data = map (\<lambda>rid. (rid, apns_prepare_kwargs rid alert kw)) reg_ids;
                               w2 = w1\<lparr>calls := calls w1 @
                                      [APNsClient_send_notification_batch client data topic nk]\<rparr>
                           in (send_notification_batch e client data topic nk, w2))
                      | Rid reg_id \<Rightarrow>
                          (let data = apns_prepare_kwargs reg_id alert kw;
                               w2 = w1\<lparr>calls := calls w1 @
                                      [APNsClient_send_notification client reg_id data topic nk]\<rparr>
                           in case send_notification e client reg_id data topic nk of
                                Some x \<Rightarrow> (Inl x, w2)
                              | None \<Rightarrow> (Inr PNone, w2)))))"

text \<open>
  \<^verbatim>\<open>models.APNSDevice.objects.get(registration_id=...)\<close>, then \<^verbatim>\<open>device.active = False\<close>
  and \<^verbatim>\<open>device.save()\<close>, lines 182 to 184. \<^verbatim>\<open>get\<close> raises unless exactly one row
  matches; the row saved is then the only one with that identifier.
\<close>

definition deactivate_device :: "string \<Rightarrow> APNSDevice list \<Rightarrow> exn + APNSDevice list" where
  "deactivate_device reg_id devs =
     (case filter (\<lambda>d. registration_id d = reg_id) devs of
        [] \<Rightarrow> Inl DoesNotExist
      | [device] \<Rightarrow>
          Inr (map (\<lambda>d. if registration_id d = reg_id then d\<lparr>active := False\<rparr> else d) devs)
      | _ \<Rightarrow> Inl MultipleObjectsReturned)"

text \<open>
  \<^verbatim>\<open>apns_send_message(registration_id, alert, **kwargs)\<close>, lines 161 to 186. The
  \<^verbatim>\<open>print\<close> statement of the token path writes to standard output, which is not part
  of the state; it comes after the settings check. The handler of the certificate path
  catches the exceptions of \<^verbatim>\<open>apns2.errors\<close> only; an exception raised inside the
  handler replaces the one being handled.
\<close>

definition apns_send_message ::
  "env \<Rightarrow> string \<Rightarrow> pyval \<Rightarrow> kwargs \<Rightarrow> world \<Rightarrow> (exn + pyval) \<times> world" where
  "apns_send_message e reg_id alert kw w =
     (if truthy (SETTINGS_get e ''USE_APNS_KEY'' (PBool False)) then
        (case check_auth_key_settings e of
           Inl x \<Rightarrow> (Inl x, w)
         | Inr _ \<Rightarrow> auth_key_apns_send e reg_id alert kw w)
      else
        (case apns_send e (Rid reg_id) alert kw w of
           (Inr _, w1) \<Rightarrow> (Inr PNone, w1)
         | (Inl (APNsException cls), w1) \<Rightarrow>
             (if cls = Unregistered then
                (case deactivate_device reg_id (devices w1) of
                   Inl x \<Rightarrow> (Inl x, w1)
                 | Inr devs \<Rightarrow>
                     (Inl (APNSServerError (reason_for_exception_class e cls)),
                      w1\<lparr>devices := devs\<rparr>))
              else (Inl (APNSServerError (reason_for_exception_class e cls)), w1))
         | (Inl x, w1) \<Rightarrow> (Inl x, w1)))"

text \<open>
  \<^verbatim>\<open>apns_send_bulk_message(registration_ids, alert, **kwargs)\<close>, lines 188 to 205.
  \<^verbatim>\<open>results.items()\<close> needs a dictionary; the update writes \<^verbatim>\<open>active=False\<close> to every
  row whose identifier is among the inactive tokens.
\<close>

definition apns_send_bulk_message ::
  "env \<Rightarrow> string list \<Rightarrow> pyval \<Rightarrow> kwargs \<Rightarrow> world \<Rightarrow> (exn + pyval) \<times> world" where
  "apns_send_bulk_message e reg_ids alert kw w =
     (if truthy (SETTINGS_get e ''USE_APNS_KEY'' (PBool False)) then
        (case check_auth_key_settings e of
           Inl x \<Rightarrow> (Inl x, w)
         | Inr _ \<Rightarrow> auth_key_apns_bulk_send e reg_ids alert kw w)
      else
        (case apns_send e (Rids reg_ids) alert kw w of
           (Inl x, w1) \<Rightarrow> (Inl x, w1)
         | (Inr (PDict results), w1) \<Rightarrow>
             (let inactive_tokens =
                    map fst (filter (\<lambda>(token, result). result = PStr ''Unregistered'') results)
              in (Inr (PDict results),
                  w1\<lparr>devices :=
                       map (\<lambda>d. if registration_id d \<in> set inactive_tokens
                                then d\<lparr>active := False\<rparr> else d)
                           (devices w1)\<rparr>))
         | (Inr _, w1) \<Rightarrow> (Inl AttributeError, w1)))"


section \<open>The admin action: \<^verbatim>\<open>DeviceAdmin.send_messages\<close>\<close>

text \<open>
  The send methods of a device and of a queryset live in \<^verbatim>\<open>models.py\<close>; the action
  sees what they return or raise, so they are parameters. The devices of a queryset are
  of any type \<open>'d\<close>.
\<close>

record 'd admin_env =
  queryset_send_message :: "'d list \<Rightarrow> string \<Rightarrow> exn + pyval"
  device_send_message :: "'d \<Rightarrow> string \<Rightarrow> exn + pyval"

text \<open>The send calls the action issues, in order.\<close>

datatype 'd send_request =
    Queryset_send_message "'d list" string
  | Device_send_message 'd string

text \<open>
  The calls of \<^verbatim>\<open>self.message_user\<close>: the error message (level \<^verbatim>\<open>messages.ERROR\<close>)
  with the joined errors, and the two success messages with the value formatted into
  them.
\<close>

datatype user_message =
    Some_could_not_be_processed string
  | Some_messages_were_sent pyval
  | All_messages_were_sent pyval

record 'd admin_state =
  requests :: "'d send_request list"
  messages :: "user_message list"

text \<open>
  The two send calls of lines 35 and 37, \<^verbatim>\<open>queryset.send_message(msg)\<close> and
  \<^verbatim>\<open>device.send_message(msg)\<close>: each yields what the method returns or raises and
  records the call, so a call is in the record exactly when it was made.
\<close>

definition queryset_send ::
  "'d admin_env \<Rightarrow> 'd list \<Rightarrow> string \<Rightarrow> 'd send_request list \<Rightarrow>
   (exn + pyval) \<times> 'd send_request list" where
  "queryset_send a queryset msg reqs =
     (queryset_send_message a queryset msg, reqs @ [Queryset_send_message queryset msg])"

definition device_send ::
  "'d admin_env \<Rightarrow> 'd \<Rightarrow> string \<Rightarrow> 'd send_request list \<Rightarrow>
   (exn + pyval) \<times> 'd send_request list" where
  "device_send a device msg reqs =
     (device_send_message a device msg, reqs @ [Device_send_message device msg])"

text \<open>
  One pass through the body of the \<^verbatim>\<open>try\<close> statement, lines 33 to 48: the send, the
  append to \<^verbatim>\<open>ret\<close> when the result is true, and the three handlers that append to
  \<^verbatim>\<open>errors\<close>. Any other exception leaves the action. The handlers' \<^verbatim>\<open>print(e)\<close>
  writes to standard output, which is not part of the state.
\<close>

definition try_send ::
  "'d admin_env \<Rightarrow> 'd list \<Rightarrow> bool \<Rightarrow> 'd \<Rightarrow> pyval list \<Rightarrow> string list \<Rightarrow>
   'd send_request list \<Rightarrow> (exn + (pyval list \<times> string list)) \<times> 'd send_request list" where
  "try_send a queryset bulk device ret errors reqs =
     (case (if bulk then queryset_send a queryset ''Test bulk notification'' reqs
            else device_send a device ''Test single notification'' reqs) of
        (Inr r, reqs') \<Rightarrow> (Inr (if truthy r then ret @ [r] else ret, errors), reqs')
      | (Inl (GCMError s), reqs') \<Rightarrow> (Inr (ret, errors @ [s]), reqs')
      | (Inl (APNSServerError status), reqs') \<Rightarrow> (Inr (ret, errors @ [status]), reqs')
      | (Inl (GobikoAPNsException name), reqs') \<Rightarrow> (Inr (ret, errors @ [name]), reqs')
      | (Inl x, reqs') \<Rightarrow> (Inl x, reqs'))"

text \<open>The loop \<^verbatim>\<open>for device in queryset\<close>, lines 32 to 51, with its \<^verbatim>\<open>break\<close>.\<close>

fun send_messages_loop ::
  "'d admin_env \<Rightarrow> 'd list \<Rightarrow> bool \<Rightarrow> 'd list \<Rightarrow> pyval list \<Rightarrow> string list \<Rightarrow>
   'd send_request list \<Rightarrow> (exn + (pyval list \<times> string list)) \<times> 'd send_request list" where
  "send_messages_loop a queryset bulk [] ret errors reqs = (Inr (ret, errors), reqs)"
| "send_messages_loop a queryset bulk (device # rest) ret errors reqs =
     (case try_send a queryset bulk device ret errors reqs of
        (Inl x, reqs') \<Rightarrow> (Inl x, reqs')
      | (Inr (ret', errors'), reqs') \<Rightarrow>
          (if bulk then (Inr (ret', errors'), reqs')
           else send_messages_loop a queryset bulk rest ret' errors' reqs'))"

text \<open>\<^verbatim>\<open>", ".join(ret)\<close>, which raises \<^verbatim>\<open>TypeError\<close> when an item is not a string.\<close>

definition join_ret :: "pyval list \<Rightarrow> exn + pyval" where
  "join_ret ret =
     (case those (map (\<lambda>v. case v of PStr s \<Rightarrow> Some s | _ \<Rightarrow> None) ret) of
        None \<Rightarrow> Inl TypeError
      | Some ss \<Rightarrow> Inr (PStr (join '', '' ss)))"

text \<open>\<^verbatim>\<open>send_messages(self, request, queryset, bulk)\<close>, lines 24 to 65.\<close>

definition send_messages ::
  "'d admin_env \<Rightarrow> 'd list \<Rightarrow> bool \<Rightarrow> 'd admin_state \<Rightarrow> (exn + unit) \<times> 'd admin_state" where
  "send_messages a queryset bulk st =
     (case send_messages_loop a queryset bulk queryset [] [] (requests st) of
        (Inl x, reqs) \<Rightarrow> (Inl x, st\<lparr>requests := reqs\<rparr>)
      | (Inr (ret, errors), reqs) \<Rightarrow>
          (let st1 = st\<lparr>requests := reqs\<rparr>;
               st2 = (if errors \<noteq> [] then
                        st1\<lparr>messages := messages st1 @
                               [Some_could_not_be_processed (join '', '' errors)]\<rparr>
                      else st1)
           in if ret \<noteq> [] then
                (case (if \<not> bulk then join_ret ret else Inr (PList ret)) of
                   Inl x \<Rightarrow> (Inl x, st2)
                 | Inr ret' \<Rightarrow>
                     (Inr (),
                      st2\<lparr>messages := messages st2 @
                            [if errors \<noteq> [] then Some_messages_were_sent ret'
                             else All_messages_were_sent ret']\<rparr>))
              else (Inr (), st2)))"


section \<open>Sample environments\<close>

text \<open>
  A certificate-path configuration whose gateway accepts everything, with the two
  members \<^verbatim>\<open>'10'\<close> and \<^verbatim>\<open>'5'\<close> of the priority enum, and a registry of three devices.
  The other environments differ from it in one field.
\<close>

definition sample_reason :: "apns2_error \<Rightarrow> string" where
  "sample_reason cls = (case cls of Unregistered \<Rightarrow> ''Unregistered'' | OtherAPNsError n \<Rightarrow> n)"

definition cert_env :: env where
  "cert_env =
     \<lparr>SETTINGS = [''APNS_CERTIFICATE'' \<mapsto> PStr ''cert.pem'', ''APNS_TOPIC'' \<mapsto> PStr ''com.example''],
      time_now = 1500000000,
      priority_values = [''10'', ''5''],
      reason_for_exception_class = sample_reason,
      connect = (\<lambda>c. None),
      send_notification = (\<lambda>c rid p topic nk. None),
      send_notification_batch =
        (\<lambda>c data topic nk. Inr (PDict (map (\<lambda>(rid, p). (rid, PStr ''Success'')) data))),
      send_message = (\<lambda>c rid alert kw. Inr (PBool True)),
      send_bulk_message = (\<lambda>c rids alert kw. Inr (PDict (map (\<lambda>rid. (rid, PStr ''Success'')) rids)))\<rparr>"

definition token_settings :: "string \<rightharpoonup> pyval" where
  "token_settings =
     [''USE_APNS_KEY'' \<mapsto> PBool True, ''TEAM_ID'' \<mapsto> PStr ''TEAM'',
      ''BUNDLE_ID'' \<mapsto> PStr ''com.example'', ''APNS_KEY_ID'' \<mapsto> PStr ''KEY'',
      ''APNS_KEY_FILEPATH'' \<mapsto> PStr ''key.p8'']"

definition token_env :: env where
  "token_env = cert_env\<lparr>SETTINGS := token_settings\<rparr>"

definition registry :: "APNSDevice list" where
  "registry =
     [\<lparr>registration_id = ''A'', active = True\<rparr>,
      \<lparr>registration_id = ''B'', active = True\<rparr>,
      \<lparr>registration_id = ''C'', active = True\<rparr>]"

definition world0 :: world where
  "world0 = \<lparr>devices = registry, calls = []\<rparr>"


text \<open>A gateway that reports one success, one unregistered token and one other error.\<close>

definition abc_env :: env where
  "abc_env =
     cert_env\<lparr>send_notification_batch :=
       (\<lambda>c data topic nk.
          Inr (PDict [(''A'', PStr ''Success''), (''B'', PStr ''Unregistered''),
                      (''C'', PStr ''BadDeviceToken'')]))\<rparr>"

text \<open>Gateways that reject a single send, with \<^verbatim>\<open>Unregistered\<close> and with another class.\<close>

definition unregistered_env :: env where
  "unregistered_env =
     cert_env\<lparr>send_notification := (\<lambda>c rid p topic nk. Some (APNsException Unregistered))\<rparr>"

definition bad_token_env :: env where
  "bad_token_env =
     cert_env\<lparr>send_notification :=
       (\<lambda>c rid p topic nk. Some (APNsException (OtherAPNsError ''BadDeviceToken'')))\<rparr>"

text \<open>Token-auth settings without the key file path.\<close>

definition no_keyfile_env :: env where
  "no_keyfile_env = cert_env\<lparr>SETTINGS := token_settings(''APNS_KEY_FILEPATH'' := None)\<rparr>"

text \<open>Token clients that return a mapping and that raise.\<close>

definition mapping_env :: env where
  "mapping_env =
     token_env\<lparr>send_message := (\<lambda>c rid alert kw. Inr (PDict [(''A'', PStr ''Success'')]))\<rparr>"

definition failing_token_env :: env where
  "failing_token_env =
     token_env\<lparr>send_message :=
       (\<lambda>c rid alert kw. Inl (GobikoAPNsException ''BadDeviceToken''))\<rparr>"

text \<open>An admin whose sends succeed, over devices named by strings.\<close>

definition sample_admin :: "string admin_env" where
  "sample_admin =
     \<lparr>queryset_send_message = (\<lambda>qs msg. Inr (PDict (map (\<lambda>d. (d, PStr ''Success'')) qs))),
      device_send_message = (\<lambda>d msg. Inr (PStr ''ok''))\<rparr>"

definition admin_state0 :: "string admin_state" where
  "admin_state0 = \<lparr>requests = [], messages = []\<rparr>"

text \<open>
  The client \<open>cert_env\<close> connects, the payload built for the alert \<^verbatim>\<open>hi\<close> with default
  keywords, and the state after one single send to a recipient from \<open>world0\<close>.
\<close>

definition sample_client :: apns2_client where
  "sample_client =
     \<lparr>c_certfile = PStr ''cert.pem'', c_use_sandbox = PNone, c_use_alternative_port = PNone\<rparr>"

definition sample_payload :: Payload where
  "sample_payload =
     \<lparr>p_alert = PlainAlert (PStr ''hi''), p_badge = Badge PNone, p_sound = PNone,
      p_content_available = PBool False, p_mutable_content = PBool False,
      p_category = PNone, p_url_args = PNone, p_custom = PDict [], p_thread_id = PNone\<rparr>"

definition world_connected :: world where
  "world_connected =
     \<lparr>devices = registry,
      calls = [APNsClient_new sample_client, APNsClient_connect sample_client]\<rparr>"

definition world_sent :: "string \<Rightarrow> world" where
  "world_sent reg_id =
     \<lparr>devices = registry,
      calls = [APNsClient_new sample_client, APNsClient_connect sample_client,
               APNsClient_send_notification sample_client reg_id sample_payload
                 (PStr ''com.example'')
                 \<lparr>nk_expiration = PInt 1502592000, nk_priority = None\<rparr>]\<rparr>"


section \<open>Properties of the payload builder\<close>

text \<open>
  C5. A message that carries a localization field (an action-localization key, a
  body-localization key or body-localization arguments that Python counts as true)
  is built with a localized-alert structure of body, localized key, localized
  arguments and action key as its alert, whether or not a plain alert string was
  supplied: the string becomes the body. A message with none of the three keeps its
  alert as given.
\<close>

theorem apns_prepare_localized_alert:
  "(truthy action_loc_key \<or> truthy loc_key \<or> truthy loc_args \<longrightarrow>
      p_alert (apns_prepare token alert badge sound category content_available
                 action_loc_key loc_key loc_args extra mutable_content thread_id url_args) =
        LocalizedAlert
          \<lparr>body = (if truthy alert then alert else PDict []),
           body_localized_key = loc_key,
           body_localized_args = loc_args,
           action_localized_key = action_loc_key\<rparr>) \<and>
   (\<not> (truthy action_loc_key \<or> truthy loc_key \<or> truthy loc_args) \<longrightarrow>
      p_alert (apns_prepare token alert badge sound category content_available
                 action_loc_key loc_key loc_args extra mutable_content thread_id url_args) =
        PlainAlert alert)"
  by (simp add: apns_prepare_def)

theorem apns_prepare_localized_alert_witness:
  "p_alert (apns_prepare ''A'' (PStr ''You have mail'') (Badge (PInt 1)) PNone PNone (PBool False)
              PNone (PStr ''GAME_PLAY_REQUEST_FORMAT'') (PList [PStr ''Jenna'', PStr ''Frank''])
              (PDict []) (PBool False) PNone PNone) =
     LocalizedAlert
       \<lparr>body = PStr ''You have mail'',
        body_localized_key = PStr ''GAME_PLAY_REQUEST_FORMAT'',
        body_localized_args = PList [PStr ''Jenna'', PStr ''Frank''],
        action_localized_key = PNone\<rparr> \<and>
   p_alert (apns_prepare ''A'' (PStr ''You have mail'') (Badge (PInt 1)) PNone PNone (PBool False)
              PNone PNone (PList []) (PDict []) (PBool False) PNone PNone) =
     PlainAlert (PStr ''You have mail'')"
  using apns_prepare_localized_alert
          [of PNone "PStr ''GAME_PLAY_REQUEST_FORMAT''" "PList [PStr ''Jenna'', PStr ''Frank'']"
              "''A''" "PStr ''You have mail''" "Badge (PInt 1)" PNone PNone "PBool False"
              "PDict []" "PBool False" PNone PNone]
        apns_prepare_localized_alert
          [of PNone PNone "PList []"
              "''A''" "PStr ''You have mail''" "Badge (PInt 1)" PNone PNone "PBool False"
              "PDict []" "PBool False" PNone PNone]
  by simp

text \<open>
  On the branch that keeps the alert as given, a callable badge is evaluated with the
  recipient's token.
\<close>

lemma apns_prepare_badge_plain_alert:
  "\<not> (truthy action_loc_key \<or> truthy loc_key \<or> truthy loc_args) \<Longrightarrow>
     p_badge (apns_prepare token alert (BadgeCallable f) sound category content_available
                action_loc_key loc_key loc_args extra mutable_content thread_id url_args) =
       Badge (f token)"
  by (simp add: apns_prepare_def)

text \<open>
  C4. The claim asks that a callable badge be evaluated with the recipient's token for
  every message, localized or not. For the recipient \<^verbatim>\<open>A\<close>, a badge function that
  returns the length of the token and a message with the localization key
  \<^verbatim>\<open>GAME_INVITE\<close>, the payload's badge is the function itself and not the integer 1
  the function gives for \<^verbatim>\<open>A\<close>.
\<close>

theorem apns_prepare_badge_callable_with_loc_key:
  "p_badge (apns_prepare ''A'' (PStr ''hi'') (BadgeCallable (\<lambda>token. PInt (int (length token))))
              PNone PNone (PBool False) PNone (PStr ''GAME_INVITE'') (PList []) (PDict [])
              (PBool False) PNone PNone) =
     BadgeCallable (\<lambda>token. PInt (int (length token))) \<and>
   p_badge (apns_prepare ''A'' (PStr ''hi'') (BadgeCallable (\<lambda>token. PInt (int (length token))))
              PNone PNone (PBool False) PNone (PStr ''GAME_INVITE'') (PList []) (PDict [])
              (PBool False) PNone PNone) \<noteq> Badge (PInt 1)"
  by (simp add: apns_prepare_def)



section \<open>Shared facts about the certificate and token paths\<close>

text \<open>Creating the socket and sending never touch the Device Registry.\<close>

lemma apns_create_socket_devices:
  "devices (snd (apns_create_socket e certfile w)) = devices w"
  by (simp add: apns_create_socket_def Let_def split: option.splits)

lemma apns_send_devices:
  "devices (snd (apns_send e rcpts alert kw w)) = devices w"
  using apns_create_socket_devices [of e "kw_certfile kw" w]
  by (auto simp: apns_send_def Let_def
           split: prod.splits sum.splits recipients.splits option.splits)

text \<open>A socket that was created has added the construction and the connect, in this order.\<close>

lemma apns_create_socket_calls:
  "apns_create_socket e certfile w = (Inr client, w1) \<Longrightarrow>
     calls w1 = calls w @ [APNsClient_new client, APNsClient_connect client]"
  by (auto simp: apns_create_socket_def Let_def split: option.splits)

lemma py_eq_True_iff: "py_eq_True ret \<longleftrightarrow> ret = PBool True \<or> ret = PInt 1"
  by (cases ret) auto

text \<open>With token auth selected and the four settings present, the single send delegates.\<close>

lemma token_path_send_message:
  "truthy (SETTINGS_get e ''USE_APNS_KEY'' (PBool False)) \<Longrightarrow>
   check_auth_key_settings e = Inr () \<Longrightarrow>
     apns_send_message e reg_id alert kw w = auth_key_apns_send e reg_id alert kw w"
  by (simp add: apns_send_message_def)

text \<open>The sample environments, evaluated.\<close>

lemma str_int_7: "str_int 7 = ''7''"
  by (simp add: str_int_def str_nat.simps digit_char_def)

lemma cert_env_socket:
  "apns_create_socket cert_env PNone world0 = (Inr sample_client, world_connected)"
  by (simp add: apns_create_socket_def cert_env_def world0_def SETTINGS_get_def py_or_def
        Let_def sample_client_def world_connected_def)

lemma cert_env_cert: "\<not> truthy (SETTINGS_get cert_env ''USE_APNS_KEY'' (PBool False))"
  by (simp add: cert_env_def SETTINGS_get_def)

lemma abc_env_cert: "\<not> truthy (SETTINGS_get abc_env ''USE_APNS_KEY'' (PBool False))"
  by (simp add: abc_env_def cert_env_def SETTINGS_get_def)

lemma unregistered_env_cert:
  "\<not> truthy (SETTINGS_get unregistered_env ''USE_APNS_KEY'' (PBool False))"
  by (simp add: unregistered_env_def cert_env_def SETTINGS_get_def)

lemma bad_token_env_cert:
  "\<not> truthy (SETTINGS_get bad_token_env ''USE_APNS_KEY'' (PBool False))"
  by (simp add: bad_token_env_def cert_env_def SETTINGS_get_def)

lemma cert_env_send:
  "apns_send cert_env (Rid ''A'') (PStr ''hi'') default_kwargs world0 =
     (Inr PNone, world_sent ''A'')"
  by (simp add: apns_send_def apns_create_socket_def cert_env_def world0_def
        SETTINGS_get_def py_or_def default_kwargs_def notification_priority_def Let_def
        world_sent_def sample_client_def sample_payload_def apns_prepare_kwargs_def
        apns_prepare_def)

lemma abc_env_send:
  "fst (apns_send abc_env (Rids [''A'', ''B'', ''C'']) (PStr ''hi'') default_kwargs world0) =
     Inr (PDict [(''A'', PStr ''Success''), (''B'', PStr ''Unregistered''),
                 (''C'', PStr ''BadDeviceToken'')])"
  by (simp add: apns_send_def apns_create_socket_def abc_env_def cert_env_def world0_def
        SETTINGS_get_def py_or_def default_kwargs_def notification_priority_def Let_def)

lemma unregistered_env_send:
  "apns_send unregistered_env (Rid ''B'') (PStr ''hi'') default_kwargs world0 =
     (Inl (APNsException Unregistered), world_sent ''B'')"
  by (simp add: apns_send_def apns_create_socket_def unregistered_env_def cert_env_def world0_def
        SETTINGS_get_def py_or_def default_kwargs_def notification_priority_def Let_def
        world_sent_def sample_client_def sample_payload_def apns_prepare_kwargs_def
        apns_prepare_def)

lemma unregistered_env_send_unknown:
  "apns_send unregistered_env (Rid ''Z'') (PStr ''hi'') default_kwargs world0 =
     (Inl (APNsException Unregistered), world_sent ''Z'')"
  by (simp add: apns_send_def apns_create_socket_def unregistered_env_def cert_env_def world0_def
        SETTINGS_get_def py_or_def default_kwargs_def notification_priority_def Let_def
        world_sent_def sample_client_def sample_payload_def apns_prepare_kwargs_def
        apns_prepare_def)

lemma bad_token_env_send:
  "apns_send bad_token_env (Rid ''B'') (PStr ''hi'') default_kwargs world0 =
     (Inl (APNsException (OtherAPNsError ''BadDeviceToken'')), world_sent ''B'')"
  by (simp add: apns_send_def apns_create_socket_def bad_token_env_def cert_env_def world0_def
        SETTINGS_get_def py_or_def default_kwargs_def notification_priority_def Let_def
        world_sent_def sample_client_def sample_payload_def apns_prepare_kwargs_def
        apns_prepare_def)

lemma no_keyfile_env_token:
  "truthy (SETTINGS_get no_keyfile_env ''USE_APNS_KEY'' (PBool False))"
  by (simp add: no_keyfile_env_def cert_env_def token_settings_def SETTINGS_get_def)

lemma no_keyfile_env_missing:
  "SETTINGS no_keyfile_env ''APNS_KEY_FILEPATH'' = None \<and>
   \<not> truthy (SETTINGS_get no_keyfile_env ''APNS_KEY_FILEPATH'' PNone)"
  by (simp add: no_keyfile_env_def cert_env_def token_settings_def SETTINGS_get_def)

lemma token_env_token:
  "truthy (SETTINGS_get token_env ''USE_APNS_KEY'' (PBool False)) \<and>
   check_auth_key_settings token_env = Inr ()"
  by (simp add: token_env_def cert_env_def token_settings_def SETTINGS_get_def
        check_auth_key_settings_def)

lemma mapping_env_token:
  "truthy (SETTINGS_get mapping_env ''USE_APNS_KEY'' (PBool False)) \<and>
   check_auth_key_settings mapping_env = Inr ()"
  by (simp add: mapping_env_def token_env_def cert_env_def token_settings_def SETTINGS_get_def
        check_auth_key_settings_def)

lemma failing_token_env_token:
  "truthy (SETTINGS_get failing_token_env ''USE_APNS_KEY'' (PBool False)) \<and>
   check_auth_key_settings failing_token_env = Inr ()"
  by (simp add: failing_token_env_def token_env_def cert_env_def token_settings_def
        SETTINGS_get_def check_auth_key_settings_def)



section \<open>Bulk send on the certificate path\<close>

text \<open>
  C1. When the certificate-path bulk send gets a per-recipient outcome mapping from the
  transport, the caller receives that mapping unmodified and no exception is raised;
  the devices of the registry whose identifier has the outcome \<^verbatim>\<open>"Unregistered"\<close> are
  set inactive and every other device is left as it was; no further call is made on
  the client.
\<close>

theorem bulk_send_deactivates_unregistered:
  assumes "\<not> truthy (SETTINGS_get e ''USE_APNS_KEY'' (PBool False))"
    and "apns_send e (Rids reg_ids) alert kw w = (Inr (PDict results), w1)"
  shows "fst (apns_send_bulk_message e reg_ids alert kw w) = Inr (PDict results) \<and>
         devices (snd (apns_send_bulk_message e reg_ids alert kw w)) =
           map (\<lambda>d. if (registration_id d, PStr ''Unregistered'') \<in> set results
                    then d\<lparr>active := False\<rparr> else d)
               (devices w) \<and>
         calls (snd (apns_send_bulk_message e reg_ids alert kw w)) = calls w1"
proof -
  have dev: "devices w1 = devices w"
    using apns_send_devices [of e "Rids reg_ids" alert kw w] assms(2) by simp
  have tokens: "\<And>t. t \<in> set (map fst (filter (\<lambda>(token, result). result = PStr ''Unregistered'')
                                          results)) \<longleftrightarrow>
                     (t, PStr ''Unregistered'') \<in> set results"
    by force
  show ?thesis
    using assms dev
    by (simp add: apns_send_bulk_message_def Let_def tokens del: set_map set_filter)
qed

theorem bulk_send_deactivates_unregistered_witness:
  "fst (apns_send_bulk_message abc_env [''A'', ''B'', ''C''] (PStr ''hi'') default_kwargs world0) =
     Inr (PDict [(''A'', PStr ''Success''), (''B'', PStr ''Unregistered''),
                 (''C'', PStr ''BadDeviceToken'')]) \<and>
   devices (snd (apns_send_bulk_message abc_env [''A'', ''B'', ''C''] (PStr ''hi'')
                   default_kwargs world0)) =
     [\<lparr>registration_id = ''A'', active = True\<rparr>,
      \<lparr>registration_id = ''B'', active = False\<rparr>,
      \<lparr>registration_id = ''C'', active = True\<rparr>]"
proof -
  obtain w1 where send:
    "apns_send abc_env (Rids [''A'', ''B'', ''C'']) (PStr ''hi'') default_kwargs world0 =
       (Inr (PDict [(''A'', PStr ''Success''), (''B'', PStr ''Unregistered''),
                    (''C'', PStr ''BadDeviceToken'')]), w1)"
    using abc_env_send by (metis prod.collapse)
  show ?thesis
    using bulk_send_deactivates_unregistered [OF abc_env_cert send]
    by (simp add: world0_def registry_def)
qed


section \<open>Single send on the certificate path\<close>

lemma deactivate_device_unique:
  "filter (\<lambda>d. registration_id d = reg_id) devs = [device] \<Longrightarrow>
     deactivate_device reg_id devs =
       Inr (map (\<lambda>d. if registration_id d = reg_id then d\<lparr>active := False\<rparr> else d) devs)"
  by (simp add: deactivate_device_def)

text \<open>
  When the registry holds no device with the recipient's identifier, the lookup raises
  inside the handler and its \<^verbatim>\<open>DoesNotExist\<close> is what the caller sees.
\<close>

lemma single_send_unregistered_unknown_device:
  assumes "\<not> truthy (SETTINGS_get e ''USE_APNS_KEY'' (PBool False))"
    and "apns_send e (Rid reg_id) alert kw w = (Inl (APNsException Unregistered), w1)"
    and "filter (\<lambda>d. registration_id d = reg_id) (devices w) = []"
  shows "apns_send_message e reg_id alert kw w = (Inl DoesNotExist, w1)"
proof -
  have dev: "devices w1 = devices w"
    using apns_send_devices [of e "Rid reg_id" alert kw w] assms(2) by simp
  show ?thesis
    using assms dev by (simp add: apns_send_message_def deactivate_device_def)
qed

text \<open>
  C2, as stated, fails: the registry of \<open>world0\<close> holds the devices \<^verbatim>\<open>A\<close>, \<^verbatim>\<open>B\<close> and
  \<^verbatim>\<open>C\<close>; for a single send to the recipient \<^verbatim>\<open>Z\<close> the transport raises
  \<^verbatim>\<open>Unregistered\<close>, and the caller gets the lookup's \<^verbatim>\<open>DoesNotExist\<close>, not an
  \<^verbatim>\<open>APNSServerError\<close> with the reason; the registry is as it was.
\<close>

theorem single_send_unregistered_unknown_recipient:
  "fst (apns_send unregistered_env (Rid ''Z'') (PStr ''hi'') default_kwargs world0) =
     Inl (APNsException Unregistered) \<and>
   apns_send_message unregistered_env ''Z'' (PStr ''hi'') default_kwargs world0 =
     (Inl DoesNotExist, world_sent ''Z'') \<and>
   devices (world_sent ''Z'') = devices world0"
proof -
  have none: "filter (\<lambda>d. registration_id d = ''Z'') (devices world0) = []"
    by (simp add: world0_def registry_def)
  show ?thesis
    using single_send_unregistered_unknown_device
            [OF unregistered_env_cert unregistered_env_send_unknown none]
          unregistered_env_send_unknown
    by (simp add: world0_def world_sent_def)
qed

text \<open>
  C2, amended. When the transport of a certificate-path single send raises a gateway
  exception: if its class is \<^verbatim>\<open>Unregistered\<close> and the registry holds exactly one
  device with the recipient's registration identifier, that device is set inactive and
  \<^verbatim>\<open>APNSServerError\<close> is raised with the reason \<^verbatim>\<open>reason_for_exception_class\<close> gives
  for the class, so the deactivation stands although the call ends in an error; if its
  class is any other, \<^verbatim>\<open>APNSServerError\<close> is raised with the reason for that class and
  the registry is as it was.
\<close>

theorem single_send_unregistered_deactivates:
  assumes "\<not> truthy (SETTINGS_get e ''USE_APNS_KEY'' (PBool False))"
    and "apns_send e (Rid reg_id) alert kw w = (Inl (APNsException cls), w1)"
  shows "(cls = Unregistered \<and>
          filter (\<lambda>d. registration_id d = reg_id) (devices w) = [device] \<longrightarrow>
            apns_send_message e reg_id alert kw w =
              (Inl (APNSServerError (reason_for_exception_class e Unregistered)),
               w1\<lparr>devices :=
                    map (\<lambda>d. if registration_id d = reg_id then d\<lparr>active := False\<rparr> else d)
                        (devices w)\<rparr>)) \<and>
         (cls \<noteq> Unregistered \<longrightarrow>
            apns_send_message e reg_id alert kw w =
              (Inl (APNSServerError (reason_for_exception_class e cls)), w1) \<and>
            devices w1 = devices w)"
proof -
  have dev: "devices w1 = devices w"
    using apns_send_devices [of e "Rid reg_id" alert kw w] assms(2) by simp
  show ?thesis
    using assms dev
    by (auto simp: apns_send_message_def deactivate_device_unique)
qed

theorem single_send_unregistered_deactivates_witness:
  "apns_send_message unregistered_env ''B'' (PStr ''hi'') default_kwargs world0 =
     (Inl (APNSServerError ''Unregistered''),
      (world_sent ''B'')\<lparr>devices :=
         [\<lparr>registration_id = ''A'', active = True\<rparr>,
          \<lparr>registration_id = ''B'', active = False\<rparr>,
          \<lparr>registration_id = ''C'', active = True\<rparr>]\<rparr>) \<and>
   apns_send_message bad_token_env ''B'' (PStr ''hi'') default_kwargs world0 =
     (Inl (APNSServerError ''BadDeviceToken''), world_sent ''B'') \<and>
   devices (world_sent ''B'') = devices world0"
proof -
  have one: "filter (\<lambda>d. registration_id d = ''B'') (devices world0) =
               [\<lparr>registration_id = ''B'', active = True\<rparr>]"
    by (simp add: world0_def registry_def)
  show ?thesis
    using one
      single_send_unregistered_deactivates [OF unregistered_env_cert unregistered_env_send,
        of "\<lparr>registration_id = ''B'', active = True\<rparr>"]
      single_send_unregistered_deactivates [OF bad_token_env_cert bad_token_env_send]
    by (simp add: world0_def registry_def unregistered_env_def bad_token_env_def cert_env_def
          sample_reason_def)
qed


section \<open>Priority\<close>

text \<open>
  C3, as stated, fails: with the priority 7, which is no member of the enum,
  \<^verbatim>\<open>APNSUnsupportedPriority\<close> is raised, but the client has connected to the gateway
  by then, so one network call was performed.
\<close>

theorem unsupported_priority_connects_first:
  "fst (apns_send cert_env (Rid ''A'') (PStr ''hi'')
          (default_kwargs\<lparr>kw_priority := PriorityInt 7\<rparr>) world0) =
     Inl (APNSUnsupportedPriority ''Unsupported priority 7'') \<and>
   filter network_call
     (calls (snd (apns_send cert_env (Rid ''A'') (PStr ''hi'')
                    (default_kwargs\<lparr>kw_priority := PriorityInt 7\<rparr>) world0))) =
     [APNsClient_connect sample_client]"
  by (simp add: apns_send_def apns_create_socket_def cert_env_def world0_def
        SETTINGS_get_def py_or_def default_kwargs_def notification_priority_def Let_def
        str_int_7 sample_client_def)

text \<open>
  C3, amended. For a certificate-path send supplied with an integer priority that is
  not zero and whose decimal string is no value of the priority enum, once the
  connection is established \<^verbatim>\<open>APNSUnsupportedPriority\<close> is raised before any
  notification is sent: no send call is added, and the connect is the only network call
  performed. The single and the bulk entry point raise the same error.
\<close>

theorem unsupported_priority_raised_before_send:
  assumes "kw_priority kw = PriorityInt i" and "i \<noteq> 0"
    and "str_int i \<notin> set (priority_values e)"
    and "apns_create_socket e (kw_certfile kw) w = (Inr client, w1)"
  shows "apns_send e rcpts alert kw w =
           (Inl (APNSUnsupportedPriority (''Unsupported priority '' @ str_int i)), w1) \<and>
         filter send_call (calls w1) = filter send_call (calls w) \<and>
         filter network_call (calls w1) =
           filter network_call (calls w) @ [APNsClient_connect client] \<and>
         (\<not> truthy (SETTINGS_get e ''USE_APNS_KEY'' (PBool False)) \<longrightarrow>
            apns_send_message e reg_id alert kw w =
              (Inl (APNSUnsupportedPriority (''Unsupported priority '' @ str_int i)), w1) \<and>
            apns_send_bulk_message e reg_ids alert kw w =
              (Inl (APNSUnsupportedPriority (''Unsupported priority '' @ str_int i)), w1))"
proof -
  have send: "\<And>r. apns_send e r alert kw w =
           (Inl (APNSUnsupportedPriority (''Unsupported priority '' @ str_int i)), w1)"
    using assms by (simp add: apns_send_def notification_priority_def)
  show ?thesis
    using send apns_create_socket_calls [OF assms(4)]
    by (simp add: apns_send_message_def apns_send_bulk_message_def)
qed

theorem unsupported_priority_raised_before_send_witness:
  "apns_send cert_env (Rids [''A'', ''B'']) (PStr ''hi'')
     (default_kwargs\<lparr>kw_priority := PriorityInt 7\<rparr>) world0 =
     (Inl (APNSUnsupportedPriority ''Unsupported priority 7''), world_connected) \<and>
   apns_send_message cert_env ''A'' (PStr ''hi'')
     (default_kwargs\<lparr>kw_priority := PriorityInt 7\<rparr>) world0 =
     (Inl (APNSUnsupportedPriority ''Unsupported priority 7''), world_connected) \<and>
   filter send_call (calls world_connected) = []"
proof -
  let ?kw = "default_kwargs\<lparr>kw_priority := PriorityInt 7\<rparr>"
  have p: "kw_priority ?kw = PriorityInt 7" by simp
  have nz: "(7::int) \<noteq> 0" by simp
  have unknown: "str_int 7 \<notin> set (priority_values cert_env)"
    by (simp add: str_int_7 cert_env_def)
  have sock: "apns_create_socket cert_env (kw_certfile ?kw) world0 =
                (Inr sample_client, world_connected)"
    using cert_env_socket by (simp add: default_kwargs_def)
  show ?thesis
    using unsupported_priority_raised_before_send
            [OF p nz unknown sock, of "Rids [''A'', ''B'']" "PStr ''hi''" "''A''"]
          str_int_7 cert_env_cert
    by (simp add: world0_def)
qed

text \<open>
  A priority given as a string that is no value of the enum does not reach
  \<^verbatim>\<open>APNSUnsupportedPriority\<close>: formatting the message with \<^verbatim>\<open>%d\<close> raises
  \<^verbatim>\<open>TypeError\<close>.
\<close>

lemma string_priority_raises_TypeError:
  "fst (apns_send cert_env (Rid ''A'') (PStr ''hi'')
          (default_kwargs\<lparr>kw_priority := PriorityStr ''urgent-but-unknown''\<rparr>) world0) =
     Inl TypeError"
  by (simp add: apns_send_def apns_create_socket_def cert_env_def world0_def
        SETTINGS_get_def py_or_def default_kwargs_def notification_priority_def Let_def)



section \<open>Token auth settings\<close>

text \<open>
  C6. With token auth selected, when one of team id, bundle id, key id and key file
  path is missing from the settings (or is set to a value Python counts as false), the
  single send and the bulk send raise \<^verbatim>\<open>ImproperlyConfigured\<close> and leave the state as
  it was: no client has been constructed, no call made, no device changed.
\<close>

theorem token_auth_missing_setting_raises:
  assumes "truthy (SETTINGS_get e ''USE_APNS_KEY'' (PBool False))"
    and "key \<in> {''TEAM_ID'', ''BUNDLE_ID'', ''APNS_KEY_ID'', ''APNS_KEY_FILEPATH''}"
    and "\<not> truthy (SETTINGS_get e key PNone)"
  shows "\<exists>msg. apns_send_message e reg_id alert kw w = (Inl (ImproperlyConfigured msg), w) \<and>
               apns_send_bulk_message e reg_ids alert kw w = (Inl (ImproperlyConfigured msg), w)"
  using assms
  by (auto simp: apns_send_message_def apns_send_bulk_message_def check_auth_key_settings_def)

theorem token_auth_missing_setting_raises_witness:
  "SETTINGS no_keyfile_env ''APNS_KEY_FILEPATH'' = None \<and>
   (\<exists>msg. apns_send_message no_keyfile_env ''A'' (PStr ''hi'') default_kwargs world0 =
             (Inl (ImproperlyConfigured msg), world0) \<and>
          apns_send_bulk_message no_keyfile_env [''A'', ''B''] (PStr ''hi'') default_kwargs world0 =
             (Inl (ImproperlyConfigured msg), world0))"
proof -
  have key: "''APNS_KEY_FILEPATH'' \<in>
               {''TEAM_ID'', ''BUNDLE_ID'', ''APNS_KEY_ID'', ''APNS_KEY_FILEPATH''}"
    by simp
  have missing: "\<not> truthy (SETTINGS_get no_keyfile_env ''APNS_KEY_FILEPATH'' PNone)"
    using no_keyfile_env_missing by simp
  show ?thesis
    using no_keyfile_env_missing
          token_auth_missing_setting_raises [OF no_keyfile_env_token key missing]
    by blast
qed


section \<open>Expiration\<close>

text \<open>
  C7. On the certificate path, once the connection is established and the priority is
  absent or parses, the notification is handed to the gateway with the expiration
  \<^verbatim>\<open>time + 2592000\<close> when no expiration was supplied (or the one supplied counts as
  false), and with the supplied expiration otherwise. This holds for the single and
  for the batch send.
\<close>

theorem apns_send_expiration:
  assumes "apns_create_socket e (kw_certfile kw) w = (Inr client, w1)"
    and "notification_priority e (kw_priority kw) = Inr priority"
  shows "(\<not> truthy (kw_expiration kw) \<longrightarrow>
            sent_expiration (last (calls (snd (apns_send e rcpts alert kw w)))) =
              Some (PInt (time_now e + 2592000))) \<and>
         (truthy (kw_expiration kw) \<longrightarrow>
            sent_expiration (last (calls (snd (apns_send e rcpts alert kw w)))) =
              Some (kw_expiration kw))"
  using assms
  by (cases rcpts) (simp_all add: apns_send_def Let_def split: option.splits)

theorem apns_send_expiration_witness:
  "sent_expiration
     (last (calls (snd (apns_send cert_env (Rid ''A'') (PStr ''hi'') default_kwargs world0)))) =
     Some (PInt 1502592000) \<and>
   sent_expiration
     (last (calls (snd (apns_send cert_env (Rids [''A'', ''B'']) (PStr ''hi'')
                         (default_kwargs\<lparr>kw_expiration := PInt 1600000000\<rparr>) world0)))) =
     Some (PInt 1600000000)"
proof -
  let ?kw = "default_kwargs\<lparr>kw_expiration := PInt 1600000000\<rparr>"
  have s1: "apns_create_socket cert_env (kw_certfile default_kwargs) world0 =
              (Inr sample_client, world_connected)"
    using cert_env_socket by (simp add: default_kwargs_def)
  have s2: "apns_create_socket cert_env (kw_certfile ?kw) world0 =
              (Inr sample_client, world_connected)"
    using cert_env_socket by (simp add: default_kwargs_def)
  have p1: "notification_priority cert_env (kw_priority default_kwargs) = Inr None"
    by (simp add: notification_priority_def default_kwargs_def)
  have p2: "notification_priority cert_env (kw_priority ?kw) = Inr None"
    by (simp add: notification_priority_def default_kwargs_def)
  show ?thesis
    using apns_send_expiration [OF s1 p1, of "Rid ''A''" "PStr ''hi''"]
          apns_send_expiration [OF s2 p2, of "Rids [''A'', ''B'']" "PStr ''hi''"]
    by (simp add: default_kwargs_def cert_env_def)
qed


section \<open>Return value of the token path\<close>




section \<open>Outcome of a single send\<close>

text \<open>
  C9, as stated, fails: a certificate-path single send that succeeds returns
  \<^verbatim>\<open>None\<close>, not a receipt or a string.
\<close>

theorem cert_single_send_returns_None:
  "fst (apns_send_message cert_env ''A'' (PStr ''hi'') default_kwargs world0) = Inr PNone"
  using cert_env_cert cert_env_send by (simp add: apns_send_message_def)

text \<open>
  C9, amended. A single send that succeeds returns \<^verbatim>\<open>None\<close> on the certificate path;
  on the token path it returns the client's return value, a value equal to \<^verbatim>\<open>True\<close>
  normalized to \<^verbatim>\<open>'True'\<close>. A single send whose transport raises ends in an error on
  both paths: some exception on the certificate path, the client's own exception on the
  token path.
\<close>

theorem single_send_outcome:
  "(\<not> truthy (SETTINGS_get e ''USE_APNS_KEY'' (PBool False)) \<and>
    fst (apns_send e (Rid reg_id) alert kw w) = Inr v \<longrightarrow>
      fst (apns_send_message e reg_id alert kw w) = Inr PNone) \<and>
   (\<not> truthy (SETTINGS_get e ''USE_APNS_KEY'' (PBool False)) \<and>
    fst (apns_send e (Rid reg_id) alert kw w) = Inl x \<longrightarrow>
      (\<exists>err. fst (apns_send_message e reg_id alert kw w) = Inl err)) \<and>
   (truthy (SETTINGS_get e ''USE_APNS_KEY'' (PBool False)) \<and>
    check_auth_key_settings e = Inr () \<and>
    send_message e (auth_key_client e) reg_id alert kw = Inr ret \<longrightarrow>
      fst (apns_send_message e reg_id alert kw w) =
        Inr (if ret = PBool True \<or> ret = PInt 1 then PStr ''True'' else ret)) \<and>
   (truthy (SETTINGS_get e ''USE_APNS_KEY'' (PBool False)) \<and>
    check_auth_key_settings e = Inr () \<and>
    send_message e (auth_key_client e) reg_id alert kw = Inl x \<longrightarrow>
      fst (apns_send_message e reg_id alert kw w) = Inl x)"
proof (intro conjI impI)
  assume "\<not> truthy (SETTINGS_get e ''USE_APNS_KEY'' (PBool False)) \<and>
          fst (apns_send e (Rid reg_id) alert kw w) = Inr v"
  then show "fst (apns_send_message e reg_id alert kw w) = Inr PNone"
    by (cases "apns_send e (Rid reg_id) alert kw w") (simp add: apns_send_message_def)
next
  assume "\<not> truthy (SETTINGS_get e ''USE_APNS_KEY'' (PBool False)) \<and>
          fst (apns_send e (Rid reg_id) alert kw w) = Inl x"
  then show "\<exists>err. fst (apns_send_message e reg_id alert kw w) = Inl err"
    by (cases "apns_send e (Rid reg_id) alert kw w"; cases x)
       (auto simp: apns_send_message_def split: sum.splits)
next
  assume "truthy (SETTINGS_get e ''USE_APNS_KEY'' (PBool False)) \<and>
          check_auth_key_settings e = Inr () \<and>
          send_message e (auth_key_client e) reg_id alert kw = Inr ret"
  then show "fst (apns_send_message e reg_id alert kw w) =
               Inr (if ret = PBool True \<or> ret = PInt 1 then PStr ''True'' else ret)"
    by (simp add: token_path_send_message auth_key_apns_send_def Let_def py_eq_True_iff)
next
  assume "truthy (SETTINGS_get e ''USE_APNS_KEY'' (PBool False)) \<and>
          check_auth_key_settings e = Inr () \<and>
          send_message e (auth_key_client e) reg_id alert kw = Inl x"
  then show "fst (apns_send_message e reg_id alert kw w) = Inl x"
    by (simp add: token_path_send_message auth_key_apns_send_def Let_def)
qed

theorem single_send_outcome_witness:
  "fst (apns_send_message cert_env ''A'' (PStr ''hi'') default_kwargs world0) = Inr PNone \<and>
   (\<exists>err. fst (apns_send_message bad_token_env ''B'' (PStr ''hi'') default_kwargs world0) =
            Inl err) \<and>
   fst (apns_send_message token_env ''A'' (PStr ''hi'') default_kwargs world0) =
     Inr (PStr ''True'') \<and>
   fst (apns_send_message mapping_env ''A'' (PStr ''hi'') default_kwargs world0) =
     Inr (PDict [(''A'', PStr ''Success'')]) \<and>
   fst (apns_send_message failing_token_env ''A'' (PStr ''hi'') default_kwargs world0) =
     Inl (GobikoAPNsException ''BadDeviceToken'')"
proof -
  have c: "fst (apns_send cert_env (Rid ''A'') (PStr ''hi'') default_kwargs world0) = Inr PNone"
    using cert_env_send by simp
  have b: "fst (apns_send bad_token_env (Rid ''B'') (PStr ''hi'') default_kwargs world0) =
             Inl (APNsException (OtherAPNsError ''BadDeviceToken''))"
    using bad_token_env_send by simp
  have t: "send_message token_env (auth_key_client token_env) ''A'' (PStr ''hi'') default_kwargs =
             Inr (PBool True)"
    by (simp add: token_env_def cert_env_def)
  have m: "send_message mapping_env (auth_key_client mapping_env) ''A'' (PStr ''hi'')
             default_kwargs = Inr (PDict [(''A'', PStr ''Success'')])"
    by (simp add: mapping_env_def token_env_def cert_env_def)
  have f: "send_message failing_token_env (auth_key_client failing_token_env) ''A'' (PStr ''hi'')
             default_kwargs = Inl (GobikoAPNsException ''BadDeviceToken'')"
    by (simp add: failing_token_env_def token_env_def cert_env_def)
  have 1: "fst (apns_send_message cert_env ''A'' (PStr ''hi'') default_kwargs world0) = Inr PNone"
    using single_send_outcome [of cert_env "''A''" "PStr ''hi''" default_kwargs world0 PNone]
          cert_env_cert c by simp
  have 2: "\<exists>err. fst (apns_send_message bad_token_env ''B'' (PStr ''hi'') default_kwargs world0) =
                   Inl err"
    using single_send_outcome [of bad_token_env "''B''" "PStr ''hi''" default_kwargs world0 _
            "APNsException (OtherAPNsError ''BadDeviceToken'')"]
          bad_token_env_cert b by simp
  have 3: "fst (apns_send_message token_env ''A'' (PStr ''hi'') default_kwargs world0) =
             Inr (PStr ''True'')"
    using single_send_outcome [of token_env "''A''" "PStr ''hi''" default_kwargs world0 _ _
            "PBool True"]
          token_env_token t by simp
  have 4: "fst (apns_send_message mapping_env ''A'' (PStr ''hi'') default_kwargs world0) =
             Inr (PDict [(''A'', PStr ''Success'')])"
    using single_send_outcome [of mapping_env "''A''" "PStr ''hi''" default_kwargs world0 _ _
            "PDict [(''A'', PStr ''Success'')]"]
          mapping_env_token m by simp
  have 5: "fst (apns_send_message failing_token_env ''A'' (PStr ''hi'') default_kwargs world0) =
             Inl (GobikoAPNsException ''BadDeviceToken'')"
    using single_send_outcome [of failing_token_env "''A''" "PStr ''hi''" default_kwargs world0
            _ "GobikoAPNsException ''BadDeviceToken''"]
          failing_token_env_token f by simp
  show ?thesis using 1 2 3 4 5 by simp
qed


section \<open>The admin test send in bulk\<close>

text \<open>With \<^verbatim>\<open>bulk=True\<close> a pass through the \<^verbatim>\<open>try\<close> statement makes the queryset-level call.\<close>

lemma try_send_bulk:
  "snd (try_send a queryset True device ret errors reqs) =
     reqs @ [Queryset_send_message queryset ''Test bulk notification'']"
  by (simp add: try_send_def queryset_send_def split: sum.splits exn.splits)

lemma send_messages_loop_bulk:
  "rest \<noteq> [] \<Longrightarrow>
     snd (send_messages_loop a queryset True rest ret errors reqs) =
       reqs @ [Queryset_send_message queryset ''Test bulk notification'']"
proof (cases rest)
  case Nil
  assume "rest \<noteq> []"
  with Nil show ?thesis by simp
next
  case (Cons device rest')
  show ?thesis
    using try_send_bulk [of a queryset device ret errors reqs]
    by (cases "try_send a queryset True device ret errors reqs")
       (auto simp: Cons split: sum.splits)
qed

text \<open>
  C10. With \<^verbatim>\<open>bulk=True\<close>, a queryset that is not empty gets exactly one send call,
  the queryset-level one, and no per-device call, whatever that call returns or raises;
  an empty queryset gets no call and no message is presented to the user.
\<close>

theorem bulk_action_one_queryset_send:
  "(queryset \<noteq> [] \<longrightarrow>
      requests (snd (send_messages a queryset True st)) =
        requests st @ [Queryset_send_message queryset ''Test bulk notification'']) \<and>
   send_messages a [] True st = (Inr (), st)"
proof -
  have "requests (snd (send_messages a queryset True st)) =
          snd (send_messages_loop a queryset True queryset [] [] (requests st))"
    by (auto simp: send_messages_def Let_def split: prod.splits sum.splits)
  then show ?thesis
    using send_messages_loop_bulk [of queryset a queryset "[]" "[]" "requests st"]
    by (simp add: send_messages_def)
qed

theorem bulk_action_one_queryset_send_witness:
  "requests (snd (send_messages sample_admin [''A'', ''B'', ''C''] True admin_state0)) =
     [Queryset_send_message [''A'', ''B'', ''C''] ''Test bulk notification'']"
  using bulk_action_one_queryset_send [of "[''A'', ''B'', ''C'']" sample_admin admin_state0]
  by (simp add: admin_state0_def)

end
